theory Spec2Isabelle
  imports Main
begin

section \<open>Data model of the Amazon backend\<close>

text \<open>
  The development embeds \<^verbatim>\<open>models/amazon_backend/common.py\<close>, the model class
  \<^verbatim>\<open>amazon.backend\<close>. The class is orchestration code: it reads fields of backend
  records, reads the clock, writes date fields back and calls collaborators (report and sale
  importers, exporters, the job queue, the feed component). The store of backend records and the
  clock are made explicit in a record \<open>world\<close>; every call to a collaborator and every field
  write is appended to a trace, in the order in which the code performs it. A call to a
  collaborator is its event: what the collaborator does to its own data is not part of the
  world, and a collaborator is taken to return.

  A datetime is the number of microseconds since the epoch. A record set is the list of the ids
  of its records, in iteration order. A user is its id.
\<close>

type_synonym datetime = int
type_synonym user = nat
type_synonym recordset = "nat list"

text \<open>
  The fields of \<^verbatim>\<open>amazon.backend\<close> that the methods read or write. The chain
  \<^verbatim>\<open>backend.warehouse_id.company_id.user_tech_id\<close> is one field here; an empty record
  or an unset date (the value \<^verbatim>\<open>False\<close>) is \<open>None\<close>.
\<close>

record backend =
  name :: string
  user_tech_id :: "user option"
  import_sales_from_date :: "datetime option"
  import_updated_sales_from_date :: "datetime option"
  sqs_account_id :: "nat option"

text \<open>The states of a queue job; the code imports three of them.\<close>

datatype job_state = PENDING | ENQUEUED | STARTED | DONE | FAILED

record queue_job =
  channel :: string
  state :: job_state
  func_string :: string
  model_name :: string

record sqs_message =
  message_id :: nat
  message_backend :: "nat option"
  processed :: bool
  create_date :: datetime

text \<open>
  The \<^verbatim>\<open>filters\<close> dictionaries the code builds, one constructor per shape. The ISO
  rendering of a datetime is the datetime itself.
\<close>

datatype filters =
    Submit_inventory_request
  | Get_inventory "nat list"
  | Submit_sales_request datetime datetime
  | Get_sales "nat list"
  | Sale_dates datetime datetime
  | Update_sales datetime datetime
  | Message nat

text \<open>
  One event per observable action: a synchronous call on a binding model (with the user it
  runs as), a job put on the queue, a field write, the contexts of \<^verbatim>\<open>work_on\<close>, and
  the invocation of a callback by \<^verbatim>\<open>_amazon_backend\<close>.
\<close>

datatype event =
    Import_batch string user nat filters
  | Delay_import_batch string user nat datetime string nat filters
  | Export_batch string user nat
  | Run_delayed_jobs user nat
  | Get_sqs_messages user nat
  | Get_products_initial_prices_and_fees nat
  | Delay_process_price_message nat datetime string filters
  | Export_products_from_supplierinfo nat
  | Write_import_sales_from_date nat "datetime option"
  | Write_import_updated_sales_from_date nat "datetime option"
  | AmazonAPI_enter nat
  | Work_on_enter nat string
  | Component string string
  | Submit_feeds nat
  | Work_on_exit nat
  | AmazonAPI_exit nat
  | Invoke string recordset

text \<open>
  The world: the table of backends (\<open>backend_ids\<close> in the order a search returns them,
  \<open>rows\<close> their fields), the user of the environment, the clock (the \<open>n\<close>-th reading of
  the clock returns \<open>clock n\<close>, and \<open>ticks\<close> counts the readings made so far), the tables
  of queue jobs and SQS messages, the number of product details of each backend, the
  supplier-info records the export selects (id and product id, in the order of the search), and
  the trace.
\<close>

record world =
  backend_ids :: "nat list"
  rows :: "nat \<Rightarrow> backend"
  env_user :: user
  clock :: "nat \<Rightarrow> datetime"
  ticks :: nat
  jobs :: "queue_job list"
  messages :: "sqs_message list"
  product_details :: "nat \<Rightarrow> nat"
  sup_products :: "(nat \<times> nat) list"
  trace :: "event list"

datatype error = AttributeError | TypeError | ValueError

datatype pyval = PyTrue | PyNone

text \<open>
  A call returns a value or raises. An error carries the world at the moment of the raise: what
  the call had done before it failed stays observable in the trace.
\<close>

type_synonym 'a result = "(error \<times> world) + 'a"

text \<open>
  What the code uses and this file does not define: the \<^verbatim>\<open>ilike\<close> operator of a search
  domain (\<open>ilike s p\<close>: the stored string \<open>s\<close> matches the pattern \<open>p\<close>), the rendering
  \<^verbatim>\<open>str(backend)\<close> of a record set, the result of the synchronous
  \<^verbatim>\<open>import_batch\<close> of \<^verbatim>\<open>amazon.report\<close> (\<open>None\<close> for a falsy result, otherwise the
  value under the key \<^verbatim>\<open>report_ids\<close>), the constant
  \<^verbatim>\<open>AMAZON_NUMBER_MESSAGES_CHANGE_PRICE_RECOVER\<close>, and the attributes of a record set of
  backends other than the methods embedded below (those the base classes of the framework
  define, the fields, the helper methods). They are parameters.

  An attribute other than an embedded method is \<open>Callable m\<close> when it can be called with no
  argument, \<open>m\<close> being what the call does to the record set; it is \<open>Not_callable\<close> when it
  is not callable or needs an argument, and then calling it raises \<^verbatim>\<open>TypeError\<close> before
  anything runs. \<open>other_attributes name\<close> is \<open>None\<close> when the record set has no
  attribute \<open>name\<close>.
\<close>

datatype attribute =
    Callable "recordset \<Rightarrow> world \<Rightarrow> (pyval \<times> world) result"
  | Not_callable

record framework =
  ilike :: "string \<Rightarrow> string \<Rightarrow> bool"
  str_of :: "recordset \<Rightarrow> string"
  report_import_batch :: "nat \<Rightarrow> filters \<Rightarrow> nat list option"
  number_messages_change_price_recover :: nat
  other_attributes :: "string \<Rightarrow> attribute option"

section \<open>Primitive operations\<close>

definition emit :: "event \<Rightarrow> world \<Rightarrow> world" where
  "emit e w = w\<lparr>trace := trace w @ [e]\<rparr>"

text \<open>\<^verbatim>\<open>datetime.today()\<close> and \<^verbatim>\<open>datetime.now()\<close>: one reading of the clock.\<close>

definition today :: "world \<Rightarrow> datetime \<times> world" where
  "today w = (clock w (ticks w), w\<lparr>ticks := ticks w + 1\<rparr>)"

text \<open>
  \<^verbatim>\<open>strptime(t.strftime('%Y-%m-%d %H:%M:%S'), '%Y-%m-%d %H:%M:%S')\<close>: the microseconds
  are dropped.
\<close>

definition whole_seconds :: "datetime \<Rightarrow> datetime" where
  "whole_seconds t = t - t mod 1000000"

definition timedelta_minutes :: "int \<Rightarrow> datetime" where
  "timedelta_minutes m = m * 60 * 1000000"

text \<open>
  \<^verbatim>\<open>datetime.strptime(value, '%Y-%m-%d %H:%M:%S')\<close> on a field value: a stored date
  parses to itself, the value \<^verbatim>\<open>False\<close> of an unset field raises \<^verbatim>\<open>TypeError\<close>.
\<close>

definition strptime :: "datetime option \<Rightarrow> error + datetime" where
  "strptime v = (case v of None \<Rightarrow> Inl TypeError | Some d \<Rightarrow> Inr d)"

text \<open>
  The first lines of every loop body:
  \<^verbatim>\<open>user = backend.warehouse_id.company_id.user_tech_id; if not user: user =
  self.env['res.users'].browse(self.env.uid)\<close>.
\<close>

definition tech_user :: "world \<Rightarrow> nat \<Rightarrow> user" where
  "tech_user w b = (case user_tech_id (rows w b) of None \<Rightarrow> env_user w | Some u \<Rightarrow> u)"

text \<open>
  \<^verbatim>\<open>if user != self.env.user: model = model.sudo(user)\<close>: the user the binding model
  runs as.
\<close>

definition sudo_user :: "world \<Rightarrow> user \<Rightarrow> user" where
  "sudo_user w u = (if u \<noteq> env_user w then u else env_user w)"

definition write_import_sales_from_date :: "nat \<Rightarrow> datetime option \<Rightarrow> world \<Rightarrow> world" where
  "write_import_sales_from_date b v w =
     emit (Write_import_sales_from_date b v)
       (w\<lparr>rows := (rows w)(b := (rows w b)\<lparr>import_sales_from_date := v\<rparr>)\<rparr>)"

definition write_import_updated_sales_from_date :: "nat \<Rightarrow> datetime option \<Rightarrow> world \<Rightarrow> world" where
  "write_import_updated_sales_from_date b v w =
     emit (Write_import_updated_sales_from_date b v)
       (w\<lparr>rows := (rows w)(b := (rows w b)\<lparr>import_updated_sales_from_date := v\<rparr>)\<rparr>)"

text \<open>
  \<^verbatim>\<open>self.search(domain)\<close> on \<^verbatim>\<open>amazon.backend\<close>. A domain is the predicate it denotes
  on a record (its id and its fields); the empty domain \<^verbatim>\<open>[]\<close> holds of every record.
\<close>

type_synonym domain = "nat \<Rightarrow> backend \<Rightarrow> bool"

definition search :: "domain \<Rightarrow> world \<Rightarrow> recordset" where
  "search d w = filter (\<lambda>b. d b (rows w b)) (backend_ids w)"

definition empty_domain :: domain where
  "empty_domain = (\<lambda>b r. True)"

section \<open>Methods of the backend\<close>

subsection \<open>\<^verbatim>\<open>check_same_import_jobs\<close>\<close>

text \<open>
  \<^verbatim>\<open>if not backend: backend = self\<close>, then a search on \<^verbatim>\<open>queue.job\<close> with five criteria and
  \<^verbatim>\<open>if job: return True; return False\<close>.
\<close>

definition same_import_jobs ::
  "framework \<Rightarrow> world \<Rightarrow> recordset \<Rightarrow> string \<Rightarrow> string \<Rightarrow> recordset option \<Rightarrow> queue_job list" where
  "same_import_jobs F w self model key backend =
     (let backend = (case backend of None \<Rightarrow> self | Some bs \<Rightarrow> if bs = [] then self else bs)
      in filter (\<lambda>j. channel j = ''root.amazon''
                    \<and> state j \<in> set [STARTED, ENQUEUED, PENDING]
                    \<and> ilike F (func_string j) (str_of F backend)
                    \<and> ilike F (model_name j) model
                    \<and> ilike F (func_string j) key) (jobs w))"

definition check_same_import_jobs ::
  "framework \<Rightarrow> world \<Rightarrow> recordset \<Rightarrow> string \<Rightarrow> string \<Rightarrow> recordset option \<Rightarrow> bool" where
  "check_same_import_jobs F w self model key backend =
     (let job = same_import_jobs F w self model key backend
      in if job \<noteq> [] then True else False)"

subsection \<open>\<^verbatim>\<open>_fix_amazon_data\<close>\<close>

text \<open>The loop body ends in \<^verbatim>\<open>break\<close>: the rest of the record set is not visited.\<close>

fun fix_amazon_data_loop :: "recordset \<Rightarrow> world \<Rightarrow> world" where
  "fix_amazon_data_loop [] w = w"
| "fix_amazon_data_loop (b # bs) w =
     (let user = tech_user w b;
          fix_data_user = sudo_user w user
      in emit (Run_delayed_jobs fix_data_user b) w)"

definition fix_amazon_data :: "recordset \<Rightarrow> world \<Rightarrow> (pyval \<times> world) result" where
  "fix_amazon_data self w = Inr (PyTrue, fix_amazon_data_loop self w)"

subsection \<open>\<^verbatim>\<open>_import_sale_orders\<close>\<close>

text \<open>
  The body of the loop is a function of its own, built from its statements in the order of the
  source; it returns the two times with the world. The
  parameters \<^verbatim>\<open>import_start_time\<close> and \<^verbatim>\<open>import_end_time\<close> are assigned inside the
  body, so the values fixed while the first backend is processed are the ones every later
  backend of the record set sees: the loop carries them. With \<^verbatim>\<open>generate_report\<close> the
  report model runs as the user of the environment (it is not switched to the technical user).
\<close>

text \<open>
  \<^verbatim>\<open>if not backend.import_updated_sales_from_date: backend.import_updated_sales_from_date =
  backend.import_sales_from_date\<close>.
\<close>

definition copy_import_date :: "nat \<Rightarrow> world \<Rightarrow> world" where
  "copy_import_date b w =
     (if import_updated_sales_from_date (rows w b) = None
      then write_import_updated_sales_from_date b (import_sales_from_date (rows w b)) w
      else w)"

text \<open>
  \<^verbatim>\<open>if not import_end_time: import_end_time = strptime(today().strftime(...), ...) -
  timedelta(minutes=2)\<close>, the same statement in both import methods.
\<close>

definition end_time_or_now :: "datetime option \<Rightarrow> world \<Rightarrow> datetime \<times> world" where
  "end_time_or_now import_end_time w =
     (case import_end_time of
        None \<Rightarrow> (let (t, w') = today w in (whole_seconds t - timedelta_minutes 2, w'))
      | Some e \<Rightarrow> (e, w))"

text \<open>\<^verbatim>\<open>if not import_start_time: ...\<close> of \<^verbatim>\<open>_import_sale_orders\<close>.\<close>

definition sales_start_time ::
  "datetime option \<Rightarrow> datetime \<Rightarrow> nat \<Rightarrow> world \<Rightarrow> error + datetime" where
  "sales_start_time import_start_time import_end_time b w =
     (case import_start_time of
        None \<Rightarrow> (if import_sales_from_date (rows w b) \<noteq> None
                  then strptime (import_sales_from_date (rows w b))
                  else Inr import_end_time)
      | Some s \<Rightarrow> Inr s)"

text \<open>The two branches of \<^verbatim>\<open>if generate_report: ... else: ...\<close>.\<close>

definition delegate_sale_import ::
  "framework \<Rightarrow> nat \<Rightarrow> user \<Rightarrow> datetime \<Rightarrow> datetime \<Rightarrow> bool \<Rightarrow> world \<Rightarrow> world" where
  "delegate_sale_import F b user start_time end_time generate_report w =
     (if generate_report then
        (let f = Submit_sales_request start_time end_time;
             report_id = report_import_batch F b f;
             w' = emit (Import_batch ''amazon.report'' (env_user w) b f) w
         in case report_id of
              None \<Rightarrow> w'
            | Some report_ids \<Rightarrow>
               (let (t, w'') = today w'
                in emit (Delay_import_batch ''amazon.report'' (env_user w'') 3
                           (t + timedelta_minutes 5)
                           (''Generate sales report to: '' @ name (rows w'' b))
                           b (Get_sales report_ids)) w''))
      else
        emit (Import_batch ''amazon.sale.order'' (sudo_user w user) b
                (Sale_dates start_time end_time)) w)"

definition import_sale_orders_body ::
  "framework \<Rightarrow> nat \<Rightarrow> datetime option \<Rightarrow> datetime option \<Rightarrow> bool \<Rightarrow> bool \<Rightarrow> world
     \<Rightarrow> (datetime \<times> datetime \<times> world) result" where
  "import_sale_orders_body F b import_start_time import_end_time generate_report
     update_import_date w =
     (let user = tech_user w b;
          w1 = copy_import_date b w;
          (end_time, w2) = end_time_or_now import_end_time w1
      in case sales_start_time import_start_time end_time b w2 of
           Inl e \<Rightarrow> Inl (e, w2)
         | Inr start_time \<Rightarrow>
            (let w3 = delegate_sale_import F b user start_time end_time generate_report w2;
                 w4 = (if update_import_date
                       then write_import_sales_from_date b (Some end_time) w3 else w3)
             in Inr (start_time, end_time, w4)))"

fun import_sale_orders_loop ::
  "framework \<Rightarrow> recordset \<Rightarrow> datetime option \<Rightarrow> datetime option \<Rightarrow> bool \<Rightarrow> bool \<Rightarrow> world
     \<Rightarrow> world result" where
  "import_sale_orders_loop F [] import_start_time import_end_time generate_report
     update_import_date w = Inr w"
| "import_sale_orders_loop F (b # bs) import_start_time import_end_time generate_report
     update_import_date w =
     (case import_sale_orders_body F b import_start_time import_end_time generate_report
             update_import_date w of
        Inl e \<Rightarrow> Inl e
      | Inr (start_time, end_time, w') \<Rightarrow>
          import_sale_orders_loop F bs (Some start_time) (Some end_time) generate_report
            update_import_date w')"

definition import_sale_orders ::
  "framework \<Rightarrow> recordset \<Rightarrow> datetime option \<Rightarrow> datetime option \<Rightarrow> bool \<Rightarrow> bool \<Rightarrow> world
     \<Rightarrow> (pyval \<times> world) result" where
  "import_sale_orders F self import_start_time import_end_time generate_report
     update_import_date w =
     (case import_sale_orders_loop F self import_start_time import_end_time generate_report
             update_import_date w of
        Inl e \<Rightarrow> Inl e
      | Inr w' \<Rightarrow> Inr (PyTrue, w'))"

subsection \<open>\<^verbatim>\<open>_import_updated_sales\<close>\<close>

text \<open>
  The test that guards the parse reads \<^verbatim>\<open>import_sales_from_date\<close>; the field parsed is
  \<^verbatim>\<open>import_updated_sales_from_date\<close>. The method has no \<^verbatim>\<open>return\<close>.
\<close>

text \<open>\<^verbatim>\<open>if not import_start_time: ...\<close> of \<^verbatim>\<open>_import_updated_sales\<close>.\<close>

definition updated_sales_start_time ::
  "datetime option \<Rightarrow> datetime \<Rightarrow> nat \<Rightarrow> world \<Rightarrow> error + datetime" where
  "updated_sales_start_time import_start_time import_end_time b w =
     (case import_start_time of
        None \<Rightarrow> (if import_sales_from_date (rows w b) \<noteq> None
                  then strptime (import_updated_sales_from_date (rows w b))
                  else Inr import_end_time)
      | Some s \<Rightarrow> Inr s)"

definition import_updated_sales_body ::
  "nat \<Rightarrow> datetime option \<Rightarrow> datetime option \<Rightarrow> bool \<Rightarrow> world
     \<Rightarrow> (datetime \<times> datetime \<times> world) result" where
  "import_updated_sales_body b import_start_time import_end_time update_import_date w =
     (let user = tech_user w b;
          sale_user = sudo_user w user;
          (end_time, w1) = end_time_or_now import_end_time w
      in case updated_sales_start_time import_start_time end_time b w1 of
           Inl e \<Rightarrow> Inl (e, w1)
         | Inr start_time \<Rightarrow>
            (let w2 = emit (Import_batch ''amazon.sale.order'' sale_user b
                              (Update_sales start_time end_time)) w1;
                 w3 = (if update_import_date
                       then write_import_updated_sales_from_date b (Some end_time) w2 else w2)
             in Inr (start_time, end_time, w3)))"

fun import_updated_sales_loop ::
  "recordset \<Rightarrow> datetime option \<Rightarrow> datetime option \<Rightarrow> bool \<Rightarrow> world \<Rightarrow> world result" where
  "import_updated_sales_loop [] import_start_time import_end_time update_import_date w = Inr w"
| "import_updated_sales_loop (b # bs) import_start_time import_end_time update_import_date w =
     (case import_updated_sales_body b import_start_time import_end_time update_import_date w of
        Inl e \<Rightarrow> Inl e
      | Inr (start_time, end_time, w') \<Rightarrow>
          import_updated_sales_loop bs (Some start_time) (Some end_time) update_import_date w')"

definition import_updated_sales ::
  "recordset \<Rightarrow> datetime option \<Rightarrow> datetime option \<Rightarrow> bool \<Rightarrow> world \<Rightarrow> (pyval \<times> world) result" where
  "import_updated_sales self import_start_time import_end_time update_import_date w =
     (case import_updated_sales_loop self import_start_time import_end_time update_import_date w of
        Inl e \<Rightarrow> Inl e
      | Inr w' \<Rightarrow> Inr (PyNone, w'))"

subsection \<open>\<^verbatim>\<open>_update_product_stock_qty_prices\<close> and \<^verbatim>\<open>_get_price_changes\<close>\<close>

fun update_product_stock_qty_prices_loop :: "recordset \<Rightarrow> world \<Rightarrow> world" where
  "update_product_stock_qty_prices_loop [] w = w"
| "update_product_stock_qty_prices_loop (b # bs) w =
     (let user = tech_user w b;
          product_user = sudo_user w user
      in update_product_stock_qty_prices_loop bs
           (emit (Export_batch ''amazon.product.product'' product_user b) w))"

definition update_product_stock_qty_prices :: "recordset \<Rightarrow> world \<Rightarrow> (pyval \<times> world) result" where
  "update_product_stock_qty_prices self w =
     Inr (PyNone, update_product_stock_qty_prices_loop self w)"

fun get_price_changes_loop :: "recordset \<Rightarrow> world \<Rightarrow> world" where
  "get_price_changes_loop [] w = w"
| "get_price_changes_loop (b # bs) w =
     (let user = tech_user w b;
          message_user = sudo_user w user
      in get_price_changes_loop bs (emit (Get_sqs_messages message_user b) w))"

definition get_price_changes :: "recordset \<Rightarrow> world \<Rightarrow> (pyval \<times> world) result" where
  "get_price_changes self w = Inr (PyNone, get_price_changes_loop self w)"

subsection \<open>\<^verbatim>\<open>work_on\<close> and \<^verbatim>\<open>_throw_feeds\<close>\<close>

text \<open>
  \<^verbatim>\<open>work_on\<close> is a context manager: \<^verbatim>\<open>ensure_one\<close>, then the Amazon API client is
  entered, then the work context of the parent class, then the body of the \<^verbatim>\<open>with\<close>
  statement runs, and the two contexts are left in reverse order.
\<close>

definition work_on :: "recordset \<Rightarrow> string \<Rightarrow> (world \<Rightarrow> world) \<Rightarrow> world \<Rightarrow> world result" where
  "work_on self model body w =
     (case self of
        [b] \<Rightarrow>
          (let w1 = emit (AmazonAPI_enter b) w;
               w2 = emit (Work_on_enter b model) w1;
               w3 = body w2;
               w4 = emit (Work_on_exit b) w3
           in Inr (emit (AmazonAPI_exit b) w4))
      | _ \<Rightarrow> Inl (ValueError, w))"

fun throw_feeds_loop :: "recordset \<Rightarrow> world \<Rightarrow> world result" where
  "throw_feeds_loop [] w = Inr w"
| "throw_feeds_loop (b # bs) w =
     (let user = tech_user w b
      in case work_on [b] ''amazon.backend''
                (\<lambda>w'. emit (Submit_feeds b)
                         (emit (Component ''amazon.feed'' ''amazon.submit.feeds'') w')) w of
           Inl e \<Rightarrow> Inl e
         | Inr w' \<Rightarrow> throw_feeds_loop bs w')"

definition throw_feeds :: "recordset \<Rightarrow> world \<Rightarrow> (pyval \<times> world) result" where
  "throw_feeds self w =
     (case throw_feeds_loop self w of Inl e \<Rightarrow> Inl e | Inr w' \<Rightarrow> Inr (PyNone, w'))"

subsection \<open>\<^verbatim>\<open>_import_product_product\<close> and \<^verbatim>\<open>_export_product_product\<close>\<close>

text \<open>
  The body of the loop is inside \<^verbatim>\<open>try\<close>; no operation of the model raises there, so the
  handler, which only logs, has no branch.
\<close>

definition import_product_product_body :: "framework \<Rightarrow> nat \<Rightarrow> world \<Rightarrow> world" where
  "import_product_product_body F b w =
     (let user = tech_user w b;
          report_user = sudo_user w user;
          report_id = report_import_batch F b Submit_inventory_request;
          w1 = emit (Import_batch ''amazon.report'' report_user b Submit_inventory_request) w
      in case report_id of
           None \<Rightarrow> w1
         | Some report_ids \<Rightarrow>
            (if report_ids \<noteq> [] then
               (let (t, w') = today w1
                in emit (Delay_import_batch ''amazon.report'' report_user 1
                           (t + timedelta_minutes 10)
                           (''Generate inventory report to: '' @ name (rows w' b))
                           b (Get_inventory report_ids)) w')
             else w1))"

fun import_product_product_loop :: "framework \<Rightarrow> recordset \<Rightarrow> world \<Rightarrow> world" where
  "import_product_product_loop F [] w = w"
| "import_product_product_loop F (b # bs) w =
     import_product_product_loop F bs (import_product_product_body F b w)"

definition import_product_product ::
  "framework \<Rightarrow> recordset \<Rightarrow> world \<Rightarrow> (pyval \<times> world) result" where
  "import_product_product F self w = Inr (PyTrue, import_product_product_loop F self w)"

text \<open>
  The loop over the supplier-info records carries \<^verbatim>\<open>product_id\<close>, initially 0; the record
  set \<^verbatim>\<open>self\<close> is not used.
\<close>

fun export_product_product_loop :: "(nat \<times> nat) list \<Rightarrow> nat \<Rightarrow> world \<Rightarrow> world" where
  "export_product_product_loop [] product_id w = w"
| "export_product_product_loop ((sid, pid) # rest) product_id w =
     export_product_product_loop rest pid
       (if product_id = 0 \<or> pid \<noteq> product_id
        then emit (Export_products_from_supplierinfo sid) w else w)"

definition export_product_product :: "recordset \<Rightarrow> world \<Rightarrow> (pyval \<times> world) result" where
  "export_product_product self w =
     Inr (PyNone, export_product_product_loop (sup_products w) 0 w)"

subsection \<open>\<^verbatim>\<open>_get_initial_prices_and_fees\<close> and \<^verbatim>\<open>_throw_delayed_jobs_for_price_changess\<close>\<close>

text \<open>Both methods search the backends themselves and do not use \<^verbatim>\<open>self\<close>.\<close>

fun get_initial_prices_and_fees_loop :: "recordset \<Rightarrow> world \<Rightarrow> world" where
  "get_initial_prices_and_fees_loop [] w = w"
| "get_initial_prices_and_fees_loop (b # bs) w =
     get_initial_prices_and_fees_loop bs (emit (Get_products_initial_prices_and_fees b) w)"

definition get_initial_prices_and_fees :: "recordset \<Rightarrow> world \<Rightarrow> (pyval \<times> world) result" where
  "get_initial_prices_and_fees self w =
     Inr (PyNone, get_initial_prices_and_fees_loop (search empty_domain w) w)"

text \<open>
  The search on \<^verbatim>\<open>amazon.config.sqs.message\<close>: the unprocessed messages of the backend,
  oldest first, at most \<open>limit\<close> of them. The ORM reads a limit of 0 as no limit.
\<close>

definition search_messages :: "nat \<Rightarrow> nat \<Rightarrow> world \<Rightarrow> sqs_message list" where
  "search_messages b limit w =
     (let found = sort_key create_date
                    (filter (\<lambda>m. message_backend m = Some b \<and> processed m = False) (messages w))
      in if limit = 0 then found else take limit found)"

text \<open>
  The inner loop: the \<^verbatim>\<open>print\<close> statement reads the clock once, \<^verbatim>\<open>with_delay\<close> reads it
  again for \<^verbatim>\<open>eta\<close>.
\<close>

fun throw_messages_loop :: "sqs_message list \<Rightarrow> world \<Rightarrow> world" where
  "throw_messages_loop [] w = w"
| "throw_messages_loop (m # ms) w =
     (let (printed, w1) = today w;
          (eta, w2) = today w1
      in throw_messages_loop ms
           (emit (Delay_process_price_message 7 eta ''amazon.backend.process_price_message()''
                    (Message (message_id m))) w2))"

fun throw_delayed_jobs_loop :: "framework \<Rightarrow> recordset \<Rightarrow> world \<Rightarrow> world" where
  "throw_delayed_jobs_loop F [] w = w"
| "throw_delayed_jobs_loop F (b # bs) w =
     (let number_messages = product_details w b;
          number_messages = (if number_messages > number_messages_change_price_recover F
                             then number_messages_change_price_recover F else number_messages);
          found = search_messages b number_messages w
      in throw_delayed_jobs_loop F bs (throw_messages_loop found w))"

definition throw_delayed_jobs_for_price_changess ::
  "framework \<Rightarrow> recordset \<Rightarrow> world \<Rightarrow> (pyval \<times> world) result" where
  "throw_delayed_jobs_for_price_changess F self w =
     Inr (PyNone,
          throw_delayed_jobs_loop F (search (\<lambda>b r. sqs_account_id r \<noteq> None) w) w)"

section \<open>Dispatch and scheduled jobs\<close>

text \<open>
  The methods of the class that the scheduled jobs are written to reach, under the names the
  class gives them, called with the default values of their parameters.
\<close>

type_synonym callback = "framework \<Rightarrow> recordset \<Rightarrow> world \<Rightarrow> (pyval \<times> world) result"

definition methods :: "(string \<times> callback) list" where
  "methods =
     [(''_import_product_product'', import_product_product),
      (''_export_product_product'', \<lambda>F. export_product_product),
      (''_import_sale_orders'', \<lambda>F self. import_sale_orders F self None None False True),
      (''_import_updated_sales'', \<lambda>F self. import_updated_sales self None None True),
      (''_update_product_stock_qty_prices'', \<lambda>F. update_product_stock_qty_prices),
      (''_fix_amazon_data'', \<lambda>F. fix_amazon_data),
      (''_get_price_changes'', \<lambda>F. get_price_changes),
      (''_get_initial_prices_and_fees'', \<lambda>F. get_initial_prices_and_fees),
      (''_throw_delayed_jobs_for_price_changess'', throw_delayed_jobs_for_price_changess),
      (''_throw_feeds'', \<lambda>F. throw_feeds)]"

text \<open>
  \<^verbatim>\<open>getattr(backends, callback)\<close>: a method of the table, else another attribute of the
  record set, else \<^verbatim>\<open>AttributeError\<close>.
\<close>

definition getattr :: "framework \<Rightarrow> string \<Rightarrow> error + attribute" where
  "getattr F callback =
     (case map_of methods callback of
        Some m \<Rightarrow> Inr (Callable (m F))
      | None \<Rightarrow>
         (case other_attributes F callback of
            Some a \<Rightarrow> Inr a
          | None \<Rightarrow> Inl AttributeError))"

text \<open>
  \<^verbatim>\<open>_amazon_backend\<close>: \<^verbatim>\<open>domain=None\<close> is the empty domain; the callback is looked up and
  called only when the search finds a backend. In \<^verbatim>\<open>getattr(backends, callback)()\<close> the
  lookup comes first and can raise \<^verbatim>\<open>AttributeError\<close>; then the call, which raises
  \<^verbatim>\<open>TypeError\<close> for an attribute that cannot be called with no argument; then the callback
  runs, and its invocation is recorded in the trace before its first event. The method has no
  \<^verbatim>\<open>return\<close>.
\<close>

definition amazon_backend ::
  "framework \<Rightarrow> string \<Rightarrow> domain option \<Rightarrow> world \<Rightarrow> (pyval \<times> world) result" where
  "amazon_backend F callback domain w =
     (let domain = (case domain of None \<Rightarrow> empty_domain | Some d \<Rightarrow> d);
          backends = search domain w
      in if backends \<noteq> [] then
           (case getattr F callback of
              Inl e \<Rightarrow> Inl (e, w)
            | Inr Not_callable \<Rightarrow> Inl (TypeError, w)
            | Inr (Callable m) \<Rightarrow>
               (case m backends (emit (Invoke callback backends) w) of
                  Inl e \<Rightarrow> Inl e
                | Inr (r, w') \<Rightarrow> Inr (PyNone, w')))
         else Inr (PyNone, w))"


definition scheduler_import_product_product ::
  "framework \<Rightarrow> domain option \<Rightarrow> world \<Rightarrow> (pyval \<times> world) result" where
  "scheduler_import_product_product F domain w =
     amazon_backend F ''_import_product_product'' domain w"

definition scheduler_export_product_product ::
  "framework \<Rightarrow> domain option \<Rightarrow> world \<Rightarrow> (pyval \<times> world) result" where
  "scheduler_export_product_product F domain w =
     amazon_backend F ''_export_product_product'' domain w"

definition scheduler_update_product_prices_stock_qty ::
  "framework \<Rightarrow> domain option \<Rightarrow> world \<Rightarrow> (pyval \<times> world) result" where
  "scheduler_update_product_prices_stock_qty F domain w =
     amazon_backend F ''_update_product_stock_qty_prices'' domain w"

definition scheduler_connector_amazon_fix_data ::
  "framework \<Rightarrow> domain option \<Rightarrow> world \<Rightarrow> (pyval \<times> world) result" where
  "scheduler_connector_amazon_fix_data F domain w =
     amazon_backend F ''_fix_amazon_data'' domain w"

definition scheduler_get_price_changes ::
  "framework \<Rightarrow> domain option \<Rightarrow> world \<Rightarrow> (pyval \<times> world) result" where
  "scheduler_get_price_changes F domain w = amazon_backend F ''_get_price_changes'' domain w"

definition scheduler_throw_jobs_for_price_changes ::
  "framework \<Rightarrow> domain option \<Rightarrow> world \<Rightarrow> (pyval \<times> world) result" where
  "scheduler_throw_jobs_for_price_changes F domain w =
     amazon_backend F ''_throw_delayed_jobs_for_price_changes'' domain w"

definition scheduler_throw_feeds ::
  "framework \<Rightarrow> domain option \<Rightarrow> world \<Rightarrow> (pyval \<times> world) result" where
  "scheduler_throw_feeds F domain w = amazon_backend F ''_throw_feeds'' domain w"

definition scheduler_get_initial_prices_and_fees ::
  "framework \<Rightarrow> domain option \<Rightarrow> world \<Rightarrow> (pyval \<times> world) result" where
  "scheduler_get_initial_prices_and_fees F domain w =
     amazon_backend F ''_get_initial_prices_and_fees'' domain w"

section \<open>Vocabulary of the properties\<close>

text \<open>The backends a domain argument of a scheduled job matches.\<close>

definition matched :: "domain option \<Rightarrow> world \<Rightarrow> recordset" where
  "matched domain w = search (case domain of None \<Rightarrow> empty_domain | Some d \<Rightarrow> d) w"

text \<open>The events a run added to the trace, and the world a call ends in.\<close>

definition events_since :: "world \<Rightarrow> world \<Rightarrow> event list" where
  "events_since w w' = drop (length (trace w)) (trace w')"

definition final_world :: "(pyval \<times> world) result \<Rightarrow> world" where
  "final_world r = (case r of Inl (e, w) \<Rightarrow> w | Inr (v, w) \<Rightarrow> w)"

fun is_invoke :: "event \<Rightarrow> bool" where
  "is_invoke (Invoke callback backends) = True"
| "is_invoke e = False"

text \<open>
  The world \<open>w'\<close> continues \<open>w\<close> without invoking a callback: its trace is the trace of
  \<open>w\<close> followed by events none of which is an invocation.
\<close>

definition extends_quietly :: "world \<Rightarrow> world \<Rightarrow> bool" where
  "extends_quietly w w' \<longleftrightarrow>
     take (length (trace w)) (trace w') = trace w
     \<and> filter is_invoke (events_since w w') = []"


text \<open>The current time, truncated to whole seconds, minus two minutes.\<close>

definition default_end_time :: "world \<Rightarrow> datetime" where
  "default_end_time w = whole_seconds (clock w (ticks w)) - timedelta_minutes 2"

text \<open>
  The end time in force for a call: the argument when it is given, the default otherwise. The
  start time in force for a backend, given the end time: the argument when it is given, else
  the stored \<^verbatim>\<open>import_sales_from_date\<close> when it is set, else the end time.
\<close>

definition end_of :: "datetime option \<Rightarrow> world \<Rightarrow> datetime" where
  "end_of import_end_time w =
     (case import_end_time of Some e \<Rightarrow> e | None \<Rightarrow> default_end_time w)"

definition start_of :: "datetime option \<Rightarrow> datetime \<Rightarrow> world \<Rightarrow> nat \<Rightarrow> datetime" where
  "start_of import_start_time e w b =
     (case import_start_time of
        Some s \<Rightarrow> s
      | None \<Rightarrow> (case import_sales_from_date (rows w b) of Some d \<Rightarrow> d | None \<Rightarrow> e))"

text \<open>The backend of an \<^verbatim>\<open>export_batch\<close> call on \<^verbatim>\<open>amazon.product.product\<close>.\<close>

fun export_batch_target :: "event \<Rightarrow> nat option" where
  "export_batch_target (Export_batch m u b) =
     (if m = ''amazon.product.product'' then Some b else None)"
| "export_batch_target e = None"

text \<open>The synchronous \<^verbatim>\<open>import_batch\<close> calls.\<close>

fun is_import_batch :: "event \<Rightarrow> bool" where
  "is_import_batch (Import_batch m u b f) = True"
| "is_import_batch e = False"

text \<open>The events of one backend in \<^verbatim>\<open>_throw_feeds\<close>.\<close>

definition feed_events :: "nat \<Rightarrow> event list" where
  "feed_events b =
     [AmazonAPI_enter b, Work_on_enter b ''amazon.backend'',
      Component ''amazon.feed'' ''amazon.submit.feeds'', Submit_feeds b,
      Work_on_exit b, AmazonAPI_exit b]"

section \<open>An example installation\<close>

text \<open>
  Three backends: the first was never synchronised, the second has both dates, the third has an
  import date that lies after the clock. Two queue jobs, one running and one done.
\<close>

definition example_rows :: "nat \<Rightarrow> backend" where
  "example_rows b =
     (if b = 1 then
        \<lparr>name = ''ES'', user_tech_id = None, import_sales_from_date = None,
         import_updated_sales_from_date = None, sqs_account_id = Some 1\<rparr>
      else if b = 2 then
        \<lparr>name = ''UK'', user_tech_id = Some 7, import_sales_from_date = Some 1700000000000000,
         import_updated_sales_from_date = Some 1690000000000000, sqs_account_id = None\<rparr>
      else
        \<lparr>name = ''DE'', user_tech_id = Some 7, import_sales_from_date = Some 1900000000000000,
         import_updated_sales_from_date = None, sqs_account_id = None\<rparr>)"

definition example_jobs :: "queue_job list" where
  "example_jobs =
     [\<lparr>channel = ''root.amazon'', state = DONE,
       func_string = ''import_batch'', model_name = ''amazon.sale.order''\<rparr>,
      \<lparr>channel = ''root.amazon'', state = STARTED,
       func_string = ''import_batch'', model_name = ''amazon.sale.order''\<rparr>]"

definition example_world :: world where
  "example_world =
     \<lparr>backend_ids = [1, 2, 3], rows = example_rows, env_user = 1,
      clock = (\<lambda>n. 1800000000123456 + int n), ticks = 0, jobs = example_jobs,
      messages = [], product_details = (\<lambda>b. 0), sup_products = [], trace = []\<rparr>"

text \<open>
  An instance of the parameters: every string matches every pattern, a record set prints as
  the empty string, the report importer finds no report. Beyond the methods of the table a
  record set has two attributes here: \<^verbatim>\<open>_name\<close>, the name of the model, a string; and
  \<^verbatim>\<open>invalidate_cache\<close>, a method of the base class that can be called with no argument,
  returns \<^verbatim>\<open>None\<close> and changes nothing in the world.
\<close>

definition example_attributes :: "string \<Rightarrow> attribute option" where
  "example_attributes callback =
     (if callback = ''_name'' then Some Not_callable
      else if callback = ''invalidate_cache'' then Some (Callable (\<lambda>self w. Inr (PyNone, w)))
      else None)"


definition example_framework :: framework where
  "example_framework =
     \<lparr>ilike = (\<lambda>s p. True), str_of = (\<lambda>bs. []), report_import_batch = (\<lambda>b f. None),
      number_messages_change_price_recover = 10, other_attributes = example_attributes\<rparr>"

section \<open>Basic facts\<close>

lemma sudo_user_id [simp]: "sudo_user w u = u"
  by (simp add: sudo_user_def)

lemma emit_simps [simp]:
  "trace (emit e w) = trace w @ [e]"
  "rows (emit e w) = rows w"
  "env_user (emit e w) = env_user w"
  "clock (emit e w) = clock w"
  "ticks (emit e w) = ticks w"
  "backend_ids (emit e w) = backend_ids w"
  by (simp_all add: emit_def)

lemma tech_user_emit [simp]: "tech_user (emit e w) b = tech_user w b"
  by (simp add: tech_user_def split: option.split)

lemma tech_user_trace [simp]: "tech_user (w\<lparr>trace := t\<rparr>) b = tech_user w b"
  by (simp add: tech_user_def split: option.split)

lemma events_since_append: "trace w' = trace w @ es \<Longrightarrow> events_since w w' = es"
  by (simp add: events_since_def)

lemma count_list_distinct: "distinct xs \<Longrightarrow> x \<in> set xs \<Longrightarrow> count_list xs x = 1"
  by (induction xs) auto

lemma distinct_search: "distinct (backend_ids w) \<Longrightarrow> distinct (search d w)"
  by (simp add: search_def)

lemma distinct_matched: "distinct (backend_ids w) \<Longrightarrow> distinct (matched domain w)"
  by (simp add: matched_def distinct_search)

subsection \<open>The loops that only call a collaborator\<close>

lemma update_product_stock_qty_prices_loop_eq:
  "update_product_stock_qty_prices_loop bs w =
     w\<lparr>trace := trace w @ map (\<lambda>b. Export_batch ''amazon.product.product'' (tech_user w b) b) bs\<rparr>"
  by (induction bs arbitrary: w) (simp_all add: Let_def emit_def)



lemma throw_feeds_loop_eq:
  "throw_feeds_loop bs w = Inr (w\<lparr>trace := trace w @ concat (map feed_events bs)\<rparr>)"
  by (induction bs arbitrary: w) (simp_all add: Let_def emit_def work_on_def feed_events_def)

lemma count_list_feed_events:
  "count_list (concat (map feed_events bs)) (Submit_feeds b) = count_list bs b"
  by (induction bs) (simp_all add: feed_events_def)

lemma count_list_export_targets:
  "count_list (map export_batch_target
       (map (\<lambda>b. Export_batch ''amazon.product.product'' (u b) b) bs)) (Some b) = count_list bs b"
  by (induction bs) simp_all

lemma getattr_simps:
  "getattr F ''_update_product_stock_qty_prices'' = Inr (Callable update_product_stock_qty_prices)"
  "getattr F ''_throw_delayed_jobs_for_price_changess'' =
     Inr (Callable (throw_delayed_jobs_for_price_changess F))"
  "getattr F ''_import_sale_orders'' =
     Inr (Callable (\<lambda>self. import_sale_orders F self None None False True))"
  "getattr F ''_import_updated_sales'' =
     Inr (Callable (\<lambda>self. import_updated_sales self None None True))"
  by (simp_all add: getattr_def methods_def)

lemma getattr_misspelled:
  "other_attributes F ''_throw_delayed_jobs_for_price_changes'' = None \<Longrightarrow>
   getattr F ''_throw_delayed_jobs_for_price_changes'' = Inl AttributeError"
  by (simp add: getattr_def methods_def)

lemma example_other_attributes [simp]:
  "other_attributes example_framework = example_attributes"
  by (simp add: example_framework_def)

lemma example_attributes_misspelled [simp]:
  "example_attributes ''_throw_delayed_jobs_for_price_changes'' = None"
  by (simp add: example_attributes_def)

lemma example_matched: "matched None example_world = [1, 2, 3]"
  by (simp add: matched_def search_def example_world_def empty_domain_def)

lemma example_tech_user:
  "tech_user example_world (Suc 0) = Suc 0"
  "tech_user example_world 1 = 1" "tech_user example_world 2 = 7" "tech_user example_world 3 = 7"
  by (simp_all add: tech_user_def example_world_def example_rows_def)

section \<open>Jobs that call one collaborator\<close>

text \<open>
  Claim C9. \<^verbatim>\<open>check_same_import_jobs(model, key, backend)\<close> returns \<^verbatim>\<open>True\<close> exactly when
  some queue job on the channel \<^verbatim>\<open>root.amazon\<close> is in one of the states STARTED, ENQUEUED
  or PENDING and matches the backend (the record set itself when no backend is given), the
  model and the key. When every job is done or failed the result is \<^verbatim>\<open>False\<close>. The result
  is a boolean by its type.
\<close>

theorem check_same_import_jobs_iff:
  "(check_same_import_jobs F w self model key backend \<longleftrightarrow>
      (\<exists>j \<in> set (jobs w).
         channel j = ''root.amazon''
         \<and> (state j = STARTED \<or> state j = ENQUEUED \<or> state j = PENDING)
         \<and> ilike F (func_string j)
              (str_of F (case backend of None \<Rightarrow> self | Some bs \<Rightarrow> if bs = [] then self else bs))
         \<and> ilike F (model_name j) model
         \<and> ilike F (func_string j) key))
   \<and> ((\<forall>j \<in> set (jobs w). state j = DONE \<or> state j = FAILED) \<longrightarrow>
        \<not> check_same_import_jobs F w self model key backend)"
proof -
  let ?target = "case backend of None \<Rightarrow> self | Some bs \<Rightarrow> if bs = [] then self else bs"
  have found: "check_same_import_jobs F w self model key backend \<longleftrightarrow>
      (\<exists>j \<in> set (jobs w).
         channel j = ''root.amazon''
         \<and> (state j = STARTED \<or> state j = ENQUEUED \<or> state j = PENDING)
         \<and> ilike F (func_string j) (str_of F ?target)
         \<and> ilike F (model_name j) model
         \<and> ilike F (func_string j) key)"
    by (auto simp: check_same_import_jobs_def same_import_jobs_def Let_def filter_empty_conv
             split: option.splits)
  have other: "(\<forall>j \<in> set (jobs w). state j = DONE \<or> state j = FAILED) \<longrightarrow>
        \<not> check_same_import_jobs F w self model key backend"
    unfolding found by auto
  from found other show ?thesis
    by blast
qed

theorem check_same_import_jobs_iff_witness:
  "check_same_import_jobs example_framework example_world [1] ''amazon.sale.order''
     ''import_batch'' None
   \<and> \<not> check_same_import_jobs example_framework (example_world\<lparr>jobs := [hd example_jobs]\<rparr>) [1]
        ''amazon.sale.order'' ''import_batch'' None"
  using check_same_import_jobs_iff [of example_framework example_world "[1]"
          "''amazon.sale.order''" "''import_batch''" None]
        check_same_import_jobs_iff [of example_framework "example_world\<lparr>jobs := [hd example_jobs]\<rparr>"
          "[1]" "''amazon.sale.order''" "''import_batch''" None]
  by (simp add: example_framework_def example_world_def example_jobs_def)

text \<open>
  Claim C10. \<^verbatim>\<open>_fix_amazon_data\<close> returns \<^verbatim>\<open>True\<close> on every record set; the only events it
  adds are the call of \<^verbatim>\<open>run_delayed_jobs\<close> for the first backend of the set, if there is
  one, and no backend record changes.
\<close>

theorem fix_amazon_data_first_backend_only:
  "\<exists>w'. fix_amazon_data self w = Inr (PyTrue, w')
     \<and> events_since w w' = map (\<lambda>b. Run_delayed_jobs (tech_user w b) b) (take 1 self)
     \<and> rows w' = rows w"
  by (cases self) (simp_all add: fix_amazon_data_def Let_def events_since_def)

text \<open>
  Claim C2. When the domain matches at least one backend, the scheduled job
  \<^verbatim>\<open>_scheduler_update_product_prices_stock_qty\<close> returns, and what it does is: one invocation
  of \<^verbatim>\<open>_update_product_stock_qty_prices\<close> on the matched record set, then one
  \<^verbatim>\<open>export_batch\<close> call on \<^verbatim>\<open>amazon.product.product\<close> per matched backend, in the order
  of the set. The ids of the table being distinct, every matched backend is exported exactly
  once and no other backend is exported.
\<close>

theorem scheduler_update_product_prices_stock_qty_each_backend:
  assumes "matched domain w \<noteq> []" and "distinct (backend_ids w)"
  shows "\<exists>w'. scheduler_update_product_prices_stock_qty F domain w = Inr (PyNone, w')
     \<and> events_since w w' =
         Invoke ''_update_product_stock_qty_prices'' (matched domain w) #
         map (\<lambda>b. Export_batch ''amazon.product.product'' (tech_user w b) b) (matched domain w)
     \<and> (\<forall>b \<in> set (matched domain w).
          count_list (map export_batch_target (events_since w w')) (Some b) = 1)
     \<and> (\<forall>b. b \<notin> set (matched domain w) \<longrightarrow>
          count_list (map export_batch_target (events_since w w')) (Some b) = 0)"
proof -
  let ?bs = "matched domain w"
  let ?w' = "update_product_stock_qty_prices_loop ?bs
               (emit (Invoke ''_update_product_stock_qty_prices'' ?bs) w)"
  have run: "scheduler_update_product_prices_stock_qty F domain w = Inr (PyNone, ?w')"
    using assms(1)
    by (simp add: scheduler_update_product_prices_stock_qty_def amazon_backend_def Let_def
          matched_def getattr_simps update_product_stock_qty_prices_def)
  have ev: "events_since w ?w' =
         Invoke ''_update_product_stock_qty_prices'' ?bs #
         map (\<lambda>b. Export_batch ''amazon.product.product'' (tech_user w b) b) ?bs"
    by (rule events_since_append) (simp add: update_product_stock_qty_prices_loop_eq)
  have cnt: "count_list (map export_batch_target (events_since w ?w')) (Some b) = count_list ?bs b"
    for b
    unfolding ev using count_list_export_targets [of "tech_user w" ?bs b] by simp
  have "distinct ?bs"
    using assms(2) by (rule distinct_matched)
  then have one: "\<forall>b \<in> set ?bs. count_list ?bs b = 1"
    by (simp add: count_list_distinct)
  have zero: "\<forall>b. b \<notin> set ?bs \<longrightarrow> count_list ?bs b = 0"
    by simp
  from run ev cnt one zero show ?thesis
    by simp
qed

theorem scheduler_update_product_prices_stock_qty_each_backend_witness:
  "\<exists>w'. scheduler_update_product_prices_stock_qty example_framework None example_world
           = Inr (PyNone, w')
     \<and> events_since example_world w' =
         [Invoke ''_update_product_stock_qty_prices'' [1, 2, 3],
          Export_batch ''amazon.product.product'' 1 1,
          Export_batch ''amazon.product.product'' 7 2,
          Export_batch ''amazon.product.product'' 7 3]"
proof -
  have d: "distinct (backend_ids example_world)"
    by (simp add: example_world_def)
  have m: "matched None example_world \<noteq> []"
    by (simp add: example_matched)
  from scheduler_update_product_prices_stock_qty_each_backend [OF m d, of example_framework]
  show ?thesis
    by (auto simp: example_matched example_tech_user)
qed

text \<open>
  Claim C8. \<^verbatim>\<open>_throw_feeds\<close> returns on every record set, and for each backend of the set,
  in order, it enters the Amazon API client and the work context on that backend, looks up the
  component of \<^verbatim>\<open>amazon.feed\<close> with usage \<^verbatim>\<open>amazon.submit.feeds\<close>, calls
  \<^verbatim>\<open>submit_feeds\<close> once, and leaves both contexts. The number of \<^verbatim>\<open>submit_feeds\<close> calls for
  a backend is the number of its occurrences in the record set: one when the set has no
  duplicates.
\<close>

theorem throw_feeds_once_per_backend:
  "\<exists>w'. throw_feeds self w = Inr (PyNone, w')
     \<and> events_since w w' = concat (map feed_events self)
     \<and> (\<forall>b. count_list (events_since w w') (Submit_feeds b) = count_list self b)
     \<and> (distinct self \<longrightarrow> (\<forall>b \<in> set self. count_list (events_since w w') (Submit_feeds b) = 1))"
proof -
  let ?w' = "w\<lparr>trace := trace w @ concat (map feed_events self)\<rparr>"
  have run: "throw_feeds self w = Inr (PyNone, ?w')"
    by (simp add: throw_feeds_def throw_feeds_loop_eq)
  have ev: "events_since w ?w' = concat (map feed_events self)"
    by (rule events_since_append) simp
  from run ev show ?thesis
    by (simp add: count_list_feed_events count_list_distinct)
qed

theorem throw_feeds_once_per_backend_witness:
  "\<exists>w'. throw_feeds [2, 1] example_world = Inr (PyNone, w')
     \<and> events_since example_world w' =
         [AmazonAPI_enter 2, Work_on_enter 2 ''amazon.backend'',
          Component ''amazon.feed'' ''amazon.submit.feeds'', Submit_feeds 2,
          Work_on_exit 2, AmazonAPI_exit 2,
          AmazonAPI_enter 1, Work_on_enter 1 ''amazon.backend'',
          Component ''amazon.feed'' ''amazon.submit.feeds'', Submit_feeds 1,
          Work_on_exit 1, AmazonAPI_exit 1]
     \<and> count_list (events_since example_world w') (Submit_feeds 1) = 1"
  using throw_feeds_once_per_backend [of "[2, 1]" example_world]
  by (auto simp: feed_events_def)

text \<open>
  Claim C1. When the domain matches at least one backend, the scheduled job
  \<^verbatim>\<open>_scheduler_throw_jobs_for_price_changes\<close> raises \<^verbatim>\<open>AttributeError\<close> before anything
  is done: the name it passes, \<^verbatim>\<open>_throw_delayed_jobs_for_price_changes\<close>, is not in the table
  of the class, whose method is spelled \<^verbatim>\<open>_throw_delayed_jobs_for_price_changess\<close>, and no
  other attribute has that name. Under the name of the table the same dispatch returns.
\<close>

theorem scheduler_throw_jobs_for_price_changes_raises:
  assumes "matched domain w \<noteq> []"
    and "other_attributes F ''_throw_delayed_jobs_for_price_changes'' = None"
  shows "scheduler_throw_jobs_for_price_changes F domain w = Inl (AttributeError, w)
     \<and> (\<exists>w'. amazon_backend F ''_throw_delayed_jobs_for_price_changess'' domain w
                = Inr (PyNone, w'))"
  using assms(1)
  by (simp add: scheduler_throw_jobs_for_price_changes_def amazon_backend_def Let_def
        matched_def getattr_simps getattr_misspelled[OF assms(2)]
        throw_delayed_jobs_for_price_changess_def)

theorem scheduler_throw_jobs_for_price_changes_raises_witness:
  "matched None example_world \<noteq> []
   \<and> scheduler_throw_jobs_for_price_changes example_framework None example_world
       = Inl (AttributeError, example_world)"
  using scheduler_throw_jobs_for_price_changes_raises [of None example_world example_framework]
  by (simp add: example_matched)

section \<open>The sales import\<close>

lemma write_sales_simps [simp]:
  "trace (write_import_sales_from_date b v w) = trace w @ [Write_import_sales_from_date b v]"
  "rows (write_import_sales_from_date b v w) =
     (rows w)(b := (rows w b)\<lparr>import_sales_from_date := v\<rparr>)"
  "env_user (write_import_sales_from_date b v w) = env_user w"
  "clock (write_import_sales_from_date b v w) = clock w"
  "ticks (write_import_sales_from_date b v w) = ticks w"
  "backend_ids (write_import_sales_from_date b v w) = backend_ids w"
  by (simp_all add: write_import_sales_from_date_def)

lemma write_updated_simps [simp]:
  "trace (write_import_updated_sales_from_date b v w) =
     trace w @ [Write_import_updated_sales_from_date b v]"
  "rows (write_import_updated_sales_from_date b v w) =
     (rows w)(b := (rows w b)\<lparr>import_updated_sales_from_date := v\<rparr>)"
  "env_user (write_import_updated_sales_from_date b v w) = env_user w"
  "clock (write_import_updated_sales_from_date b v w) = clock w"
  "ticks (write_import_updated_sales_from_date b v w) = ticks w"
  "backend_ids (write_import_updated_sales_from_date b v w) = backend_ids w"
  by (simp_all add: write_import_updated_sales_from_date_def)

lemma copy_import_date_simps [simp]:
  "env_user (copy_import_date b w) = env_user w"
  "clock (copy_import_date b w) = clock w"
  "ticks (copy_import_date b w) = ticks w"
  "backend_ids (copy_import_date b w) = backend_ids w"
  "user_tech_id (rows (copy_import_date b w) b') = user_tech_id (rows w b')"
  "name (rows (copy_import_date b w) b') = name (rows w b')"
  "import_sales_from_date (rows (copy_import_date b w) b') = import_sales_from_date (rows w b')"
  by (simp_all add: copy_import_date_def)

lemma copy_import_date_other: "b' \<noteq> b \<Longrightarrow> rows (copy_import_date b w) b' = rows w b'"
  by (simp add: copy_import_date_def)

lemma copy_import_date_trace:
  "trace (copy_import_date b w) = trace w @
     (if import_updated_sales_from_date (rows w b) = None
      then [Write_import_updated_sales_from_date b (import_sales_from_date (rows w b))] else [])"
  by (simp add: copy_import_date_def)

lemma end_time_or_now_fst: "fst (end_time_or_now en w) = (case en of Some e \<Rightarrow> e | None \<Rightarrow> default_end_time w)"
  by (simp add: end_time_or_now_def today_def default_end_time_def split: option.split)

lemma end_time_or_now_snd [simp]:
  "env_user (snd (end_time_or_now en w)) = env_user w"
  "clock (snd (end_time_or_now en w)) = clock w"
  "backend_ids (snd (end_time_or_now en w)) = backend_ids w"
  "rows (snd (end_time_or_now en w)) = rows w"
  "trace (snd (end_time_or_now en w)) = trace w"
  by (simp_all add: end_time_or_now_def today_def split: option.split)

lemma delegate_simps [simp]:
  "env_user (delegate_sale_import F b u st en gr w) = env_user w"
  "clock (delegate_sale_import F b u st en gr w) = clock w"
  "backend_ids (delegate_sale_import F b u st en gr w) = backend_ids w"
  "rows (delegate_sale_import F b u st en gr w) = rows w"
  by (simp_all add: delegate_sale_import_def today_def Let_def split: option.split)

lemma delegate_trace:
  "\<exists>es. trace (delegate_sale_import F b u st en gr w) =
     trace w @ Import_batch (if gr then ''amazon.report'' else ''amazon.sale.order'')
                 (if gr then env_user w else u) b
                 (if gr then Submit_sales_request st en else Sale_dates st en) # es
     \<and> (\<forall>e\<in>set es. \<not> is_invoke e) \<and> (\<not> gr \<longrightarrow> es = [])"
  by (simp add: delegate_sale_import_def today_def Let_def split: option.split)

lemma sales_start_time_eq:
  "sales_start_time st en b w =
     Inr (case st of Some s \<Rightarrow> s | None \<Rightarrow>
            (case import_sales_from_date (rows w b) of Some d \<Rightarrow> d | None \<Rightarrow> en))"
  by (simp add: sales_start_time_def strptime_def split: option.split)


lemma end_of_copy [simp]: "end_of en (copy_import_date b w) = end_of en w"
  by (simp add: end_of_def default_end_time_def split: option.split)

lemma end_time_or_now_end_of [simp]: "fst (end_time_or_now en w) = end_of en w"
  by (simp add: end_time_or_now_fst end_of_def)

lemma start_of_cong:
  "import_sales_from_date (rows w' b) = import_sales_from_date (rows w b) \<Longrightarrow>
   start_of st e w' b = start_of st e w b"
  by (simp add: start_of_def split: option.split)

lemma start_of_step [simp]:
  "start_of st e (snd (end_time_or_now en (copy_import_date b w))) b = start_of st e w b"
  by (rule start_of_cong) simp

lemma sales_start_time_start_of [simp]: "sales_start_time st e b w = Inr (start_of st e w b)"
  by (simp add: sales_start_time_eq start_of_def)

lemma sale_body_eq:
  "import_sale_orders_body F b st en gr up w =
     Inr (start_of st (end_of en w) w b, end_of en w,
          (let w3 = delegate_sale_import F b (tech_user w b) (start_of st (end_of en w) w b)
                      (end_of en w) gr (snd (end_time_or_now en (copy_import_date b w)))
           in if up then write_import_sales_from_date b (Some (end_of en w)) w3 else w3))"
  by (simp add: import_sale_orders_body_def case_prod_beta Let_def)

lemma sale_body_frame:
  assumes "import_sale_orders_body F b st en gr up w = Inr (st', en', w')"
  shows "en' = end_of en w" and "st' = start_of st (end_of en w) w b"
    and "env_user w' = env_user w" and "clock w' = clock w" and "backend_ids w' = backend_ids w"
    and "user_tech_id (rows w' b') = user_tech_id (rows w b')"
    and "name (rows w' b') = name (rows w b')"
    and "b' \<noteq> b \<Longrightarrow> rows w' b' = rows w b'"
    and "import_sales_from_date (rows w' b') =
           (if up \<and> b' = b then Some en' else import_sales_from_date (rows w b'))"
  using assms by (auto simp: sale_body_eq Let_def copy_import_date_other)

lemma sale_body_trace:
  assumes "import_sale_orders_body F b st en gr up w = Inr (st', en', w')"
  shows "\<exists>es. trace w' = trace w @
     (if import_updated_sales_from_date (rows w b) = None
      then [Write_import_updated_sales_from_date b (import_sales_from_date (rows w b))] else []) @
     Import_batch (if gr then ''amazon.report'' else ''amazon.sale.order'')
                 (if gr then env_user w else tech_user w b) b
                 (if gr then Submit_sales_request st' en' else Sale_dates st' en') # es @
     (if up then [Write_import_sales_from_date b (Some en')] else [])
     \<and> (\<forall>e\<in>set es. \<not> is_invoke e) \<and> (\<not> gr \<longrightarrow> es = [])"
proof -
  let ?w2 = "snd (end_time_or_now en (copy_import_date b w))"
  obtain es where es: "trace (delegate_sale_import F b (tech_user w b) st' en' gr ?w2) =
     trace ?w2 @ Import_batch (if gr then ''amazon.report'' else ''amazon.sale.order'')
                 (if gr then env_user ?w2 else tech_user w b) b
                 (if gr then Submit_sales_request st' en' else Sale_dates st' en') # es"
     and inv: "\<forall>e\<in>set es. \<not> is_invoke e" and nogr: "\<not> gr \<longrightarrow> es = []"
    using delegate_trace[of F b "tech_user w b" st' en' gr ?w2] by blast
  from assms have st': "st' = start_of st (end_of en w) w b" and en': "en' = end_of en w"
    and w': "w' = (let w3 = delegate_sale_import F b (tech_user w b) st' en' gr ?w2
           in if up then write_import_sales_from_date b (Some en') w3 else w3)"
    by (auto simp: sale_body_eq)
  have "trace w' = trace w @
     (if import_updated_sales_from_date (rows w b) = None
      then [Write_import_updated_sales_from_date b (import_sales_from_date (rows w b))] else []) @
     Import_batch (if gr then ''amazon.report'' else ''amazon.sale.order'')
                 (if gr then env_user w else tech_user w b) b
                 (if gr then Submit_sales_request st' en' else Sale_dates st' en') # es @
     (if up then [Write_import_sales_from_date b (Some en')] else [])"
    unfolding w' Let_def using es by (simp add: copy_import_date_trace)
  with inv nogr show ?thesis by blast
qed


lemma end_of_Some [simp]: "end_of (Some e) w = e"
  by (simp add: end_of_def)

lemma start_of_Some [simp]: "start_of (Some s) e w b = s"
  by (simp add: start_of_def)

lemma sale_body_ex:
  "\<exists>st' en' w'. import_sale_orders_body F b st en gr up w = Inr (st', en', w')"
  by (simp add: sale_body_eq)

lemma sale_loop_Cons:
  "import_sale_orders_body F b st en gr up w = Inr (st', en', w1) \<Longrightarrow>
   import_sale_orders_loop F (b # bs) st en gr up w =
     import_sale_orders_loop F bs (Some st') (Some en') gr up w1"
  by simp

lemma sale_loop_total:
  "\<exists>w'. import_sale_orders_loop F bs st en gr up w = Inr w'"
proof (induction bs arbitrary: w st en)
  case Nil
  show ?case by simp
next
  case (Cons b bs)
  obtain st' en' w1 where body: "import_sale_orders_body F b st en gr up w = Inr (st', en', w1)"
    using sale_body_ex by blast
  show ?case
    using Cons.IH[of "Some st'" "Some en'" w1] by (simp only: sale_loop_Cons[OF body])
qed



lemma sale_loop_trace_ext:
  "import_sale_orders_loop F bs st en gr up w = Inr w' \<Longrightarrow>
     \<exists>es. trace w' = trace w @ es \<and> (\<forall>e\<in>set es. \<not> is_invoke e)"
proof (induction bs arbitrary: w st en)
  case Nil
  then show ?case by simp
next
  case (Cons b bs)
  obtain st' en' w1 where body: "import_sale_orders_body F b st en gr up w = Inr (st', en', w1)"
    using sale_body_ex by blast
  from Cons.prems have loop: "import_sale_orders_loop F bs (Some st') (Some en') gr up w1 = Inr w'"
    by (simp only: sale_loop_Cons[OF body])
  from Cons.IH[OF loop] obtain es where es: "trace w' = trace w1 @ es" "\<forall>e\<in>set es. \<not> is_invoke e"
    by blast
  from sale_body_trace[OF body] obtain es1 where
    es1: "trace w1 = trace w @
     (if import_updated_sales_from_date (rows w b) = None
      then [Write_import_updated_sales_from_date b (import_sales_from_date (rows w b))] else []) @
     Import_batch (if gr then ''amazon.report'' else ''amazon.sale.order'')
                 (if gr then env_user w else tech_user w b) b
                 (if gr then Submit_sales_request st' en' else Sale_dates st' en') # es1 @
     (if up then [Write_import_sales_from_date b (Some en')] else [])"
    and inv1: "\<forall>e\<in>set es1. \<not> is_invoke e"
    by blast
  let ?es = "(if import_updated_sales_from_date (rows w b) = None
      then [Write_import_updated_sales_from_date b (import_sales_from_date (rows w b))] else []) @
     Import_batch (if gr then ''amazon.report'' else ''amazon.sale.order'')
                 (if gr then env_user w else tech_user w b) b
                 (if gr then Submit_sales_request st' en' else Sale_dates st' en') # es1 @
     (if up then [Write_import_sales_from_date b (Some en')] else []) @ es"
  have "trace w' = trace w @ ?es" using es(1) es1 by simp
  moreover have "\<forall>e\<in>set ?es. \<not> is_invoke e" using es(2) inv1 by auto
  ultimately show ?case by blast
qed



lemma tech_user_cong:
  "user_tech_id (rows w' b) = user_tech_id (rows w b) \<Longrightarrow> env_user w' = env_user w \<Longrightarrow>
   tech_user w' b = tech_user w b"
  by (simp add: tech_user_def split: option.split)

lemma events_since_trans:
  "trace w1 = trace w @ es1 \<Longrightarrow> trace w' = trace w1 @ es2 \<Longrightarrow> events_since w w' = es1 @ es2"
  by (simp add: events_since_def)


subsection \<open>Values of the example\<close>

lemma example_end_of: "end_of None example_world = 1799999880000000"
  by (simp add: end_of_def default_end_time_def example_world_def whole_seconds_def
        timedelta_minutes_def)

lemma example_fields:
  "import_sales_from_date (rows example_world (Suc 0)) = None"
  "import_sales_from_date (rows example_world 1) = None"
  "import_sales_from_date (rows example_world 2) = Some 1700000000000000"
  "import_sales_from_date (rows example_world 3) = Some 1900000000000000"
  "import_updated_sales_from_date (rows example_world (Suc 0)) = None"
  "import_updated_sales_from_date (rows example_world 1) = None"
  "import_updated_sales_from_date (rows example_world 2) = Some 1690000000000000"
  "import_updated_sales_from_date (rows example_world 3) = None"
  by (simp_all add: example_world_def example_rows_def)



subsection \<open>Defaults of the import interval\<close>

lemma whole_seconds_bounds:
  "whole_seconds t \<le> t" "t < whole_seconds t + 1000000" "whole_seconds t mod 1000000 = 0"
  by (simp_all add: whole_seconds_def)

lemma sale_loop_first:
  "\<exists>w' es. import_sale_orders F (b # bs) st en gr up w = Inr (PyTrue, w')
     \<and> events_since w w' =
         (if import_updated_sales_from_date (rows w b) = None
          then [Write_import_updated_sales_from_date b (import_sales_from_date (rows w b))]
          else []) @
         Import_batch (if gr then ''amazon.report'' else ''amazon.sale.order'')
           (if gr then env_user w else tech_user w b) b
           (if gr then Submit_sales_request (start_of st (end_of en w) w b) (end_of en w)
            else Sale_dates (start_of st (end_of en w) w b) (end_of en w)) # es"
proof -
  obtain st' en' w1 where body: "import_sale_orders_body F b st en gr up w = Inr (st', en', w1)"
    using sale_body_ex by blast
  obtain w' where loop: "import_sale_orders_loop F bs (Some st') (Some en') gr up w1 = Inr w'"
    using sale_loop_total by blast
  have run: "import_sale_orders F (b # bs) st en gr up w = Inr (PyTrue, w')"
    by (simp add: import_sale_orders_def body loop)
  have en': "en' = end_of en w" and st': "st' = start_of st (end_of en w) w b"
    using sale_body_frame(1,2)[OF body] by simp_all
  from sale_body_trace[OF body] obtain es1 where t1: "trace w1 = trace w @
     ((if import_updated_sales_from_date (rows w b) = None
       then [Write_import_updated_sales_from_date b (import_sales_from_date (rows w b))] else []) @
      Import_batch (if gr then ''amazon.report'' else ''amazon.sale.order'')
                 (if gr then env_user w else tech_user w b) b
                 (if gr then Submit_sales_request st' en' else Sale_dates st' en') # es1 @
      (if up then [Write_import_sales_from_date b (Some en')] else []))"
    by auto
  from sale_loop_trace_ext[OF loop] obtain es2 where t2: "trace w' = trace w1 @ es2"
    by blast
  have "events_since w w' =
         (if import_updated_sales_from_date (rows w b) = None
          then [Write_import_updated_sales_from_date b (import_sales_from_date (rows w b))]
          else []) @
         Import_batch (if gr then ''amazon.report'' else ''amazon.sale.order'')
           (if gr then env_user w else tech_user w b) b
           (if gr then Submit_sales_request (start_of st (end_of en w) w b) (end_of en w)
            else Sale_dates (start_of st (end_of en w) w b) (end_of en w)) #
         (es1 @ (if up then [Write_import_sales_from_date b (Some en')] else []) @ es2)"
    unfolding events_since_trans[OF t1 t2] by (simp add: en' st')
  with run show ?thesis by blast
qed

text \<open>
  Claim C6, amended. For the first backend of the record set (so for a call on one backend),
  \<^verbatim>\<open>_import_sale_orders\<close> returns \<^verbatim>\<open>True\<close> and delegates the import with these times. The end
  time is the argument when it is given; with no \<^verbatim>\<open>import_end_time\<close> it is the current time
  truncated to whole seconds minus two minutes. The start time is the argument when it is
  given; with no \<^verbatim>\<open>import_start_time\<close> it is the stored \<^verbatim>\<open>import_sales_from_date\<close> when
  that field is set, and the end time otherwise. A defaulted start time is not after the end
  time exactly when the field is unset or its date is not after the end time.
\<close>

theorem import_sale_orders_default_interval:
  "(\<exists>w' es. import_sale_orders F (b # bs) st en gr up w = Inr (PyTrue, w')
      \<and> events_since w w' =
          (if import_updated_sales_from_date (rows w b) = None
           then [Write_import_updated_sales_from_date b (import_sales_from_date (rows w b))]
           else []) @
          Import_batch (if gr then ''amazon.report'' else ''amazon.sale.order'')
            (if gr then env_user w else tech_user w b) b
            (if gr
             then Submit_sales_request (start_of st (end_of en w) w b) (end_of en w)
             else Sale_dates (start_of st (end_of en w) w b) (end_of en w)) # es)
   \<and> (en = None \<longrightarrow> end_of en w = whole_seconds (clock w (ticks w)) - 120000000)
   \<and> (\<forall>e. en = Some e \<longrightarrow> end_of en w = e)
   \<and> whole_seconds (clock w (ticks w)) \<le> clock w (ticks w)
   \<and> clock w (ticks w) < whole_seconds (clock w (ticks w)) + 1000000
   \<and> whole_seconds (clock w (ticks w)) mod 1000000 = 0
   \<and> (st = None \<and> import_sales_from_date (rows w b) = None \<longrightarrow>
         start_of st (end_of en w) w b = end_of en w)
   \<and> (\<forall>d. st = None \<and> import_sales_from_date (rows w b) = Some d \<longrightarrow>
         start_of st (end_of en w) w b = d)
   \<and> (\<forall>s. st = Some s \<longrightarrow> start_of st (end_of en w) w b = s)
   \<and> (st = None \<longrightarrow>
        (start_of st (end_of en w) w b \<le> end_of en w \<longleftrightarrow>
           (\<forall>d. import_sales_from_date (rows w b) = Some d \<longrightarrow> d \<le> end_of en w)))"
proof -
  have first: "\<exists>w' es. import_sale_orders F (b # bs) st en gr up w = Inr (PyTrue, w')
      \<and> events_since w w' =
          (if import_updated_sales_from_date (rows w b) = None
           then [Write_import_updated_sales_from_date b (import_sales_from_date (rows w b))]
           else []) @
          Import_batch (if gr then ''amazon.report'' else ''amazon.sale.order'')
            (if gr then env_user w else tech_user w b) b
            (if gr
             then Submit_sales_request (start_of st (end_of en w) w b) (end_of en w)
             else Sale_dates (start_of st (end_of en w) w b) (end_of en w)) # es"
    by (rule sale_loop_first)
  have now: "en = None \<longrightarrow> end_of en w = whole_seconds (clock w (ticks w)) - 120000000"
    by (simp add: end_of_def default_end_time_def timedelta_minutes_def)
  have given_end: "\<forall>e. en = Some e \<longrightarrow> end_of en w = e"
    by simp
  have unset: "st = None \<and> import_sales_from_date (rows w b) = None \<longrightarrow>
         start_of st (end_of en w) w b = end_of en w"
    by (simp add: start_of_def)
  have stored: "\<forall>d. st = None \<and> import_sales_from_date (rows w b) = Some d \<longrightarrow>
         start_of st (end_of en w) w b = d"
    by (simp add: start_of_def)
  have given_start: "\<forall>s. st = Some s \<longrightarrow> start_of st (end_of en w) w b = s"
    by simp
  have ordered: "st = None \<longrightarrow>
        (start_of st (end_of en w) w b \<le> end_of en w \<longleftrightarrow>
           (\<forall>d. import_sales_from_date (rows w b) = Some d \<longrightarrow> d \<le> end_of en w))"
    by (cases "import_sales_from_date (rows w b)") (simp_all add: start_of_def)
  from first now given_end whole_seconds_bounds[of "clock w (ticks w)"] unset stored
    given_start ordered
  show ?thesis
    by (intro conjI)
qed

theorem import_sale_orders_default_interval_witness:
  "(\<exists>w' es. import_sale_orders example_framework [2, 1] None None False True example_world
          = Inr (PyTrue, w')
     \<and> events_since example_world w' =
         Import_batch ''amazon.sale.order'' 7 2
           (Sale_dates 1700000000000000 1799999880000000) # es)
   \<and> (1700000000000000::int) \<le> 1799999880000000
   \<and> (\<exists>w' es. import_sale_orders example_framework [2] (Some 5) None False True example_world
          = Inr (PyTrue, w')
     \<and> events_since example_world w' =
         Import_batch ''amazon.sale.order'' 7 2 (Sale_dates 5 1799999880000000) # es)
   \<and> (\<exists>w' es. import_sale_orders example_framework [2] None (Some 1750000000000000) False True
            example_world = Inr (PyTrue, w')
     \<and> events_since example_world w' =
         Import_batch ''amazon.sale.order'' 7 2
           (Sale_dates 1700000000000000 1750000000000000) # es)"
proof -
  have e: "end_of None example_world = 1799999880000000"
    by (rule example_end_of)
  have s: "start_of None e example_world 2 = 1700000000000000" for e
    by (simp add: start_of_def example_fields)
  from import_sale_orders_default_interval
         [where F = example_framework and b = 2 and bs = "[1]" and st = None and en = None
            and gr = False and up = True and w = example_world]
       import_sale_orders_default_interval
         [where F = example_framework and b = 2 and bs = "[]" and st = "Some 5" and en = None
            and gr = False and up = True and w = example_world]
       import_sale_orders_default_interval
         [where F = example_framework and b = 2 and bs = "[]" and st = None
            and en = "Some 1750000000000000" and gr = False and up = True and w = example_world]
  show ?thesis
    by (simp add: e s example_fields example_tech_user)
qed

text \<open>
  Claim C6 as stated fails. A backend whose stored import date lies after the clock gets an
  interval whose start is after its end. In a call on two backends the second one gets the
  start time of the first one, not its own stored import date.
\<close>

theorem import_sale_orders_default_interval_counterexample:
  "events_since example_world
     (final_world (import_sale_orders example_framework [3] None None False True example_world))
   = [Write_import_updated_sales_from_date 3 (Some 1900000000000000),
      Import_batch ''amazon.sale.order'' 7 3 (Sale_dates 1900000000000000 1799999880000000),
      Write_import_sales_from_date 3 (Some 1799999880000000)]
   \<and> \<not> (1900000000000000 \<le> (1799999880000000::int))
   \<and> events_since example_world
     (final_world (import_sale_orders example_framework [2, 3] None None False True example_world))
   = [Import_batch ''amazon.sale.order'' 7 2 (Sale_dates 1700000000000000 1799999880000000),
      Write_import_sales_from_date 2 (Some 1799999880000000),
      Write_import_updated_sales_from_date 3 (Some 1900000000000000),
      Import_batch ''amazon.sale.order'' 7 3 (Sale_dates 1700000000000000 1799999880000000),
      Write_import_sales_from_date 3 (Some 1799999880000000)]
   \<and> import_sales_from_date (rows example_world 3) = Some 1900000000000000
   \<and> (1700000000000000::int) \<noteq> 1900000000000000"
  by (simp add: import_sale_orders_def sale_body_eq final_world_def events_since_def
        example_end_of start_of_def example_fields example_tech_user Let_def
        delegate_sale_import_def end_time_or_now_def today_def copy_import_date_def
        example_world_def example_rows_def emit_def write_import_sales_from_date_def
        write_import_updated_sales_from_date_def tech_user_def whole_seconds_def
        timedelta_minutes_def end_of_def default_end_time_def)

section \<open>The updated-sales import\<close>

lemma updated_sales_start_time_Some [simp]: "updated_sales_start_time (Some s) e b w = Inr s"
  by (simp add: updated_sales_start_time_def)

lemma updated_sales_start_time_None:
  "updated_sales_start_time None e b w =
     (case import_sales_from_date (rows w b) of
        None \<Rightarrow> Inr e
      | Some s \<Rightarrow> (case import_updated_sales_from_date (rows w b) of
                     None \<Rightarrow> Inl TypeError | Some d \<Rightarrow> Inr d))"
  by (simp add: updated_sales_start_time_def strptime_def split: option.split)

lemma updated_sales_start_time_rows:
  "rows w' = rows w \<Longrightarrow> updated_sales_start_time st e b w' = updated_sales_start_time st e b w"
  by (auto simp: updated_sales_start_time_def split: option.split)

lemma tech_user_end_time_or_now [simp]:
  "tech_user (snd (end_time_or_now en w)) b = tech_user w b"
  by (rule tech_user_cong) simp_all

lemma updated_body_eq:
  "import_updated_sales_body b st en up w =
     (case updated_sales_start_time st (end_of en w) b w of
        Inl x \<Rightarrow> Inl (x, snd (end_time_or_now en w))
      | Inr s \<Rightarrow>
          Inr (s, end_of en w,
               (let w2 = emit (Import_batch ''amazon.sale.order'' (tech_user w b) b
                                 (Update_sales s (end_of en w))) (snd (end_time_or_now en w))
                in if up then write_import_updated_sales_from_date b (Some (end_of en w)) w2
                   else w2)))"
  by (simp add: import_updated_sales_body_def case_prod_beta Let_def
        updated_sales_start_time_rows[of "snd (end_time_or_now en w)" w] split: sum.split)

lemma updated_body_Inr:
  assumes "updated_sales_start_time st (end_of en w) b w = Inr s"
  shows "\<exists>w1. import_updated_sales_body b st en up w = Inr (s, end_of en w, w1)
     \<and> trace w1 = trace w @
         Import_batch ''amazon.sale.order'' (tech_user w b) b (Update_sales s (end_of en w)) #
         (if up then [Write_import_updated_sales_from_date b (Some (end_of en w))] else [])
     \<and> env_user w1 = env_user w \<and> backend_ids w1 = backend_ids w
     \<and> (\<forall>b'. user_tech_id (rows w1 b') = user_tech_id (rows w b'))"
  by (simp add: updated_body_eq assms Let_def)

lemma updated_body_Inl:
  assumes "updated_sales_start_time st (end_of en w) b w = Inl x"
  shows "\<exists>w1. import_updated_sales_body b st en up w = Inl (x, w1) \<and> trace w1 = trace w"
  by (simp add: updated_body_eq assms)

lemma updated_loop_Some:
  "\<exists>w' es. import_updated_sales_loop bs (Some s) (Some e) up w = Inr w'
     \<and> trace w' = trace w @ es \<and> (\<forall>x\<in>set es. \<not> is_invoke x)
     \<and> filter is_import_batch es =
         map (\<lambda>b. Import_batch ''amazon.sale.order'' (tech_user w b) b (Update_sales s e)) bs"
proof (induction bs arbitrary: w)
  case Nil
  show ?case by simp
next
  case (Cons b bs)
  have "updated_sales_start_time (Some s) (end_of (Some e) w) b w = Inr s"
    by simp
  from updated_body_Inr[OF this, of up] obtain w1 where
    body: "import_updated_sales_body b (Some s) (Some e) up w = Inr (s, e, w1)"
    and t1: "trace w1 = trace w @
         Import_batch ''amazon.sale.order'' (tech_user w b) b (Update_sales s e) #
         (if up then [Write_import_updated_sales_from_date b (Some e)] else [])"
    and frame: "env_user w1 = env_user w" "\<forall>b'. user_tech_id (rows w1 b') = user_tech_id (rows w b')"
    by auto
  have users: "tech_user w1 b' = tech_user w b'" for b'
    using frame by (rule_tac tech_user_cong) simp_all
  from Cons.IH[of w1] obtain w' es where
    loop: "import_updated_sales_loop bs (Some s) (Some e) up w1 = Inr w'"
    and t2: "trace w' = trace w1 @ es" and inv: "\<forall>x\<in>set es. \<not> is_invoke x"
    and imp: "filter is_import_batch es =
         map (\<lambda>b. Import_batch ''amazon.sale.order'' (tech_user w1 b) b (Update_sales s e)) bs"
    by blast
  let ?es = "Import_batch ''amazon.sale.order'' (tech_user w b) b (Update_sales s e) #
         (if up then [Write_import_updated_sales_from_date b (Some e)] else []) @ es"
  have "import_updated_sales_loop (b # bs) (Some s) (Some e) up w = Inr w'"
    by (simp add: body loop)
  moreover have "trace w' = trace w @ ?es"
    using t1 t2 by simp
  moreover have "\<forall>x\<in>set ?es. \<not> is_invoke x"
    using inv by auto
  moreover have "filter is_import_batch ?es =
         map (\<lambda>b. Import_batch ''amazon.sale.order'' (tech_user w b) b (Update_sales s e)) (b # bs)"
    using imp by (simp add: users)
  ultimately show ?case by blast
qed

lemma updated_loop_first_Inr:
  assumes "updated_sales_start_time st (end_of en w) b w = Inr s"
  shows "\<exists>w' es. import_updated_sales (b # bs) st en up w = Inr (PyNone, w')
     \<and> events_since w w' =
         Import_batch ''amazon.sale.order'' (tech_user w b) b (Update_sales s (end_of en w)) # es
     \<and> (\<forall>x\<in>set es. \<not> is_invoke x)
     \<and> filter is_import_batch es =
         map (\<lambda>b. Import_batch ''amazon.sale.order'' (tech_user w b) b
                    (Update_sales s (end_of en w))) bs"
proof -
  from updated_body_Inr[OF assms, of up] obtain w1 where
    body: "import_updated_sales_body b st en up w = Inr (s, end_of en w, w1)"
    and t1: "trace w1 = trace w @
         (Import_batch ''amazon.sale.order'' (tech_user w b) b (Update_sales s (end_of en w)) #
         (if up then [Write_import_updated_sales_from_date b (Some (end_of en w))] else []))"
    and frame: "env_user w1 = env_user w" "\<forall>b'. user_tech_id (rows w1 b') = user_tech_id (rows w b')"
    by auto
  have users: "tech_user w1 b' = tech_user w b'" for b'
    using frame by (rule_tac tech_user_cong) simp_all
  from updated_loop_Some[of bs s "end_of en w" up w1] obtain w' es where
    loop: "import_updated_sales_loop bs (Some s) (Some (end_of en w)) up w1 = Inr w'"
    and t2: "trace w' = trace w1 @ es" and inv: "\<forall>x\<in>set es. \<not> is_invoke x"
    and imp: "filter is_import_batch es =
         map (\<lambda>b. Import_batch ''amazon.sale.order'' (tech_user w1 b) b
                    (Update_sales s (end_of en w))) bs"
    by blast
  let ?es = "(if up then [Write_import_updated_sales_from_date b (Some (end_of en w))] else []) @ es"
  have "import_updated_sales (b # bs) st en up w = Inr (PyNone, w')"
    by (simp add: import_updated_sales_def body loop)
  moreover have "events_since w w' =
         Import_batch ''amazon.sale.order'' (tech_user w b) b (Update_sales s (end_of en w)) # ?es"
    unfolding events_since_trans[OF t1 t2] by simp
  moreover have "\<forall>x\<in>set ?es. \<not> is_invoke x"
    using inv by auto
  moreover have "filter is_import_batch ?es =
         map (\<lambda>b. Import_batch ''amazon.sale.order'' (tech_user w b) b
                    (Update_sales s (end_of en w))) bs"
    using imp by (simp add: users)
  ultimately show ?thesis by blast
qed

lemma updated_loop_first_Inl:
  assumes "updated_sales_start_time st (end_of en w) b w = Inl x"
  shows "\<exists>w1. import_updated_sales (b # bs) st en up w = Inl (x, w1) \<and> events_since w w1 = []"
proof -
  from updated_body_Inl[OF assms, of up] obtain w1 where
    "import_updated_sales_body b st en up w = Inl (x, w1)" and "trace w1 = trace w"
    by blast
  then show ?thesis
    by (simp add: import_updated_sales_def events_since_def)
qed

text \<open>
  Claim C4, amended. For the first backend of the record set (so for a call on one backend),
  \<^verbatim>\<open>_import_updated_sales\<close> called with no start time behaves as follows. When
  \<^verbatim>\<open>import_sales_from_date\<close> is unset, the start time is the end time, whatever
  \<^verbatim>\<open>import_updated_sales_from_date\<close> holds. When both fields are set, the start time is the
  stored \<^verbatim>\<open>import_updated_sales_from_date\<close>. When \<^verbatim>\<open>import_sales_from_date\<close> is set and
  \<^verbatim>\<open>import_updated_sales_from_date\<close> is not, the call raises \<^verbatim>\<open>TypeError\<close> before any
  import is delegated.
\<close>

theorem import_updated_sales_start_time:
  "(import_sales_from_date (rows w b) = None \<longrightarrow>
      (\<exists>w' es. import_updated_sales (b # bs) None en up w = Inr (PyNone, w')
         \<and> events_since w w' =
             Import_batch ''amazon.sale.order'' (tech_user w b) b
               (Update_sales (end_of en w) (end_of en w)) # es))
   \<and> (\<forall>s d. import_sales_from_date (rows w b) = Some s
             \<and> import_updated_sales_from_date (rows w b) = Some d \<longrightarrow>
      (\<exists>w' es. import_updated_sales (b # bs) None en up w = Inr (PyNone, w')
         \<and> events_since w w' =
             Import_batch ''amazon.sale.order'' (tech_user w b) b
               (Update_sales d (end_of en w)) # es))
   \<and> (\<forall>s. import_sales_from_date (rows w b) = Some s
           \<and> import_updated_sales_from_date (rows w b) = None \<longrightarrow>
      (\<exists>w1. import_updated_sales (b # bs) None en up w = Inl (TypeError, w1)
         \<and> events_since w w1 = []))"
proof (intro conjI allI impI)
  assume "import_sales_from_date (rows w b) = None"
  then have "updated_sales_start_time None (end_of en w) b w = Inr (end_of en w)"
    by (simp add: updated_sales_start_time_None)
  from updated_loop_first_Inr[OF this, of bs up]
  show "\<exists>w' es. import_updated_sales (b # bs) None en up w = Inr (PyNone, w')
         \<and> events_since w w' =
             Import_batch ''amazon.sale.order'' (tech_user w b) b
               (Update_sales (end_of en w) (end_of en w)) # es"
    by blast
next
  fix s d
  assume "import_sales_from_date (rows w b) = Some s
             \<and> import_updated_sales_from_date (rows w b) = Some d"
  then have "updated_sales_start_time None (end_of en w) b w = Inr d"
    by (simp add: updated_sales_start_time_None)
  from updated_loop_first_Inr[OF this, of bs up]
  show "\<exists>w' es. import_updated_sales (b # bs) None en up w = Inr (PyNone, w')
         \<and> events_since w w' =
             Import_batch ''amazon.sale.order'' (tech_user w b) b
               (Update_sales d (end_of en w)) # es"
    by blast
next
  fix s
  assume "import_sales_from_date (rows w b) = Some s
           \<and> import_updated_sales_from_date (rows w b) = None"
  then have "updated_sales_start_time None (end_of en w) b w = Inl TypeError"
    by (simp add: updated_sales_start_time_None)
  from updated_loop_first_Inl[OF this, of bs up]
  show "\<exists>w1. import_updated_sales (b # bs) None en up w = Inl (TypeError, w1)
         \<and> events_since w w1 = []"
    by blast
qed

theorem import_updated_sales_start_time_witness:
  "(\<exists>w' es. import_updated_sales [1] None None True example_world = Inr (PyNone, w')
      \<and> events_since example_world w' =
          Import_batch ''amazon.sale.order'' 1 1
            (Update_sales 1799999880000000 1799999880000000) # es)
   \<and> (\<exists>w' es. import_updated_sales [2] None None True example_world = Inr (PyNone, w')
      \<and> events_since example_world w' =
          Import_batch ''amazon.sale.order'' 7 2
            (Update_sales 1690000000000000 1799999880000000) # es)
   \<and> (\<exists>w1. import_updated_sales [3] None None True example_world = Inl (TypeError, w1)
      \<and> events_since example_world w1 = [])"
  using import_updated_sales_start_time [of example_world 1 "[]" None True]
        import_updated_sales_start_time [of example_world 2 "[]" None True]
        import_updated_sales_start_time [of example_world 3 "[]" None True]
  by (simp add: example_fields example_tech_user example_end_of)

text \<open>
  Claim C4 as stated fails for a later backend of the record set. In a call on two backends, a
  second backend with no \<^verbatim>\<open>import_sales_from_date\<close> is imported from the start time of the
  first backend, which is not the end time; and a second backend with
  \<^verbatim>\<open>import_sales_from_date\<close> set and \<^verbatim>\<open>import_updated_sales_from_date\<close> unset is imported
  from that same start time, and the call returns instead of raising.
\<close>

theorem import_updated_sales_start_time_counterexample:
  "events_since example_world
     (final_world (import_updated_sales [2, 1] None None True example_world))
   = [Import_batch ''amazon.sale.order'' 7 2 (Update_sales 1690000000000000 1799999880000000),
      Write_import_updated_sales_from_date 2 (Some 1799999880000000),
      Import_batch ''amazon.sale.order'' 1 1 (Update_sales 1690000000000000 1799999880000000),
      Write_import_updated_sales_from_date 1 (Some 1799999880000000)]
   \<and> import_sales_from_date (rows example_world 1) = None
   \<and> (1690000000000000::int) \<noteq> 1799999880000000
   \<and> import_updated_sales [2, 3] None None True example_world
     = Inr (PyNone, final_world (import_updated_sales [2, 3] None None True example_world))
   \<and> events_since example_world
     (final_world (import_updated_sales [2, 3] None None True example_world))
   = [Import_batch ''amazon.sale.order'' 7 2 (Update_sales 1690000000000000 1799999880000000),
      Write_import_updated_sales_from_date 2 (Some 1799999880000000),
      Import_batch ''amazon.sale.order'' 7 3 (Update_sales 1690000000000000 1799999880000000),
      Write_import_updated_sales_from_date 3 (Some 1799999880000000)]
   \<and> import_sales_from_date (rows example_world 3) = Some 1900000000000000
   \<and> import_updated_sales_from_date (rows example_world 3) = None"
  by (simp add: import_updated_sales_def updated_body_eq final_world_def events_since_def
        example_end_of example_fields example_tech_user Let_def
        updated_sales_start_time_None end_time_or_now_def today_def
        example_world_def example_rows_def emit_def
        write_import_updated_sales_from_date_def tech_user_def whole_seconds_def
        timedelta_minutes_def end_of_def default_end_time_def)

section \<open>Dispatch by name\<close>

lemma extends_quietly_iff:
  "extends_quietly w w' \<longleftrightarrow> (\<exists>es. trace w' = trace w @ es \<and> filter is_invoke es = [])"
proof
  assume q: "extends_quietly w w'"
  then have "trace w' = trace w @ events_since w w'"
    unfolding extends_quietly_def events_since_def
    by (metis append_take_drop_id)
  with q show "\<exists>es. trace w' = trace w @ es \<and> filter is_invoke es = []"
    unfolding extends_quietly_def by blast
next
  assume "\<exists>es. trace w' = trace w @ es \<and> filter is_invoke es = []"
  then show "extends_quietly w w'"
    by (auto simp: extends_quietly_def events_since_def)
qed

lemma extends_quietly_refl [simp]: "extends_quietly w w"
  by (simp add: extends_quietly_iff)


lemma extends_quietly_same_trace:
  "trace w1 = trace w \<Longrightarrow> extends_quietly w1 w' \<Longrightarrow> extends_quietly w w'"
  by (simp add: extends_quietly_iff)












lemma messages_throw_messages [simp]: "messages (throw_messages_loop ms w) = messages w"
  by (induction ms arbitrary: w) (simp_all add: today_def emit_def)








lemma getattr_error: "getattr F callback = Inl e \<Longrightarrow> e = AttributeError"
  by (auto simp: getattr_def split: option.splits)













section \<open>The sales job\<close>

lemma default_end_time_emit [simp]: "default_end_time (emit e w) = default_end_time w"
  by (simp add: default_end_time_def)

lemma start_of_emit [simp]: "start_of st e (emit x w) b = start_of st e w b"
  by (rule start_of_cong) simp












end
